theory Spec2Isabelle
  imports Main
begin

section \<open>Data model\<close>

text \<open>
  The dashboard is one React component, \<^verbatim>\<open>App\<close>. Its \<^verbatim>\<open>useState\<close> cells are the
  record \<open>AppState\<close>; everything the component reaches outside React (refs, the camera
  tracks, speech synthesis, the console, timers, pending promises) is the record
  \<open>Browser\<close>.
\<close>

datatype Mode = ModeInitial | ModeCamera | ModeUpload

datatype FileType = Image | Video

datatype SafetyLevel = SAFE | CAUTION | DANGER

datatype Severity = LOW | MEDIUM | HIGH

text \<open>
  Modelled from the spec: the module \<^verbatim>\<open>./types\<close> that declares \<^verbatim>\<open>AnalysisResult\<close> is
  not among the sources. The three records follow section 3 of the specification and the
  fields that \<^verbatim>\<open>AnalysisPanel.tsx\<close> reads.
\<close>

record Hazard =
  hazard_type :: string
  severity :: Severity
  description :: string

record Sign =
  sign_type :: string
  meaning :: string
  location :: string

record AnalysisResult =
  safetyLevel :: SafetyLevel
  recommendation :: string
  timestamp :: string
  hazards :: "Hazard list"
  signs :: "Sign list"

text \<open>A \<^verbatim>\<open>MediaStream\<close> is known by the tracks that \<^verbatim>\<open>getTracks()\<close> returns.\<close>

datatype MediaStream = MediaStream (getTracks: "nat list")

text \<open>The file picked in the hidden input: its MIME type and the URL that
  \<^verbatim>\<open>URL.createObjectURL\<close> hands out for it.\<close>

record File =
  objectURL :: string
  mimeType :: string

record AppState =
  mode :: Mode
  fileType :: "FileType option"
  mediaSource :: "string option"
  cameraStream :: "MediaStream option"
  result :: "AnalysisResult option"
  analyzing :: bool
  error :: "string option"
  isVoiceEnabled :: bool
  isAutoScan :: bool

text \<open>
  The video element under \<^verbatim>\<open>videoRef\<close>. \<open>currentFrame\<close> is the JPEG data URL that
  drawing the element on a canvas of its own size and calling \<^verbatim>\<open>toDataURL\<close> yields.
\<close>

record HTMLVideoElement =
  videoWidth :: nat
  videoHeight :: nat
  srcObject :: "MediaStream option"
  currentFrame :: string

text \<open>The canvas under \<^verbatim>\<open>canvasRef\<close>; \<open>has2d\<close> says whether \<^verbatim>\<open>getContext('2d')\<close>
  returns a context.\<close>

record HTMLCanvasElement =
  canvasWidth :: nat
  canvasHeight :: nat
  has2d :: bool

text \<open>A live timer of \<^verbatim>\<open>window.setInterval\<close>: its handle (positive), the time it
  fires next, its period and the snapshot that its callback closes over.\<close>

record Timer =
  handle :: nat
  due :: nat
  period :: nat
  callback :: AppState

text \<open>
  A function of the component closes over the state of the render that created it. An
  asynchronous call or a timer callback therefore carries an \<open>AppState\<close> snapshot, while
  the setters it calls act on the live state.

  \<^item> \<open>stopped\<close>: the tracks on which \<^verbatim>\<open>stop()\<close> has been called;
  \<^item> \<open>speechSynthesis\<close>: the utterance queue of \<^verbatim>\<open>window.speechSynthesis\<close>, the head
    being the one that plays; \<open>None\<close> on a platform without speech synthesis;
  \<^item> \<open>inflight\<close>: the pending \<^verbatim>\<open>analyzeRoadScene\<close> calls, each with the snapshot of the
    invocation that awaits it and the image sent;
  \<^item> \<open>fetching\<close>: the invocations that await the re-encoding of an uploaded image;
  \<^item> \<open>intervals\<close>: the live \<^verbatim>\<open>setInterval\<close> timers;
  \<^item> \<open>now\<close>: the clock, in milliseconds;
  \<^item> \<open>requesting\<close>: the number of pending \<^verbatim>\<open>getUserMedia\<close> requests;
  \<^item> \<open>dialogOpen\<close>: the file dialog of the hidden input is open.
\<close>

record Browser =
  stopped :: "nat set"
  videoRef :: "HTMLVideoElement option"
  canvasRef :: "HTMLCanvasElement option"
  speechSynthesis :: "string list option"
  console :: "string list"
  inflight :: "(AppState \<times> string) list"
  fetching :: "(AppState \<times> string) list"
  intervals :: "Timer list"
  autoScanInterval :: "nat option"
  timerCount :: nat
  requesting :: nat
  dialogOpen :: bool
  now :: nat

section \<open>Voice\<close>

text \<open>\<^verbatim>\<open>speak\<close> (lines 46--56): nothing without voice or without speech synthesis; a
  priority message cancels the queue first.\<close>

definition speak :: "AppState \<Rightarrow> string \<Rightarrow> bool \<Rightarrow> Browser \<Rightarrow> Browser" where
  "speak snap txt priority w =
     (if \<not> isVoiceEnabled snap then w
      else case speechSynthesis w of
        None \<Rightarrow> w
      | Some q \<Rightarrow> w\<lparr>speechSynthesis := Some ((if priority then [] else q) @ [txt])\<rparr>)"

text \<open>The effect that reacts to a new result (lines 59--70).\<close>

definition narrationEffect :: "AppState \<Rightarrow> Browser \<Rightarrow> Browser" where
  "narrationEffect snap w =
     (case result snap of
        None \<Rightarrow> w
      | Some r \<Rightarrow>
          if isVoiceEnabled snap then
            (case safetyLevel r of
               DANGER \<Rightarrow> speak snap (''Warning. '' @ recommendation r) True w
             | CAUTION \<Rightarrow> speak snap (''Caution. '' @ recommendation r) False w
             | SAFE \<Rightarrow> if \<not> isAutoScan snap then speak snap (recommendation r) False w else w)
          else w)"

text \<open>The voice button (lines 361--374).\<close>

definition toggleVoice :: "AppState \<Rightarrow> AppState \<times> Browser \<Rightarrow> AppState \<times> Browser" where
  "toggleVoice snap c =
     (case c of (st, w) \<Rightarrow>
        let newState = \<not> isVoiceEnabled snap in
        (st\<lparr>isVoiceEnabled := newState\<rparr>,
         if \<not> newState then
           (case speechSynthesis w of None \<Rightarrow> w | Some q \<Rightarrow> w\<lparr>speechSynthesis := Some []\<rparr>)
         else w))"

section \<open>Camera and upload\<close>

text \<open>\<^verbatim>\<open>startCamera\<close> (lines 73--88), resumed with what \<^verbatim>\<open>getUserMedia\<close> settled to:
  \<open>None\<close> is the rejection.\<close>

definition startCamera :: "MediaStream option \<Rightarrow> AppState \<times> Browser \<Rightarrow> AppState \<times> Browser" where
  "startCamera granted c =
     (case c of (st, w) \<Rightarrow>
        (case granted of
           Some stream \<Rightarrow>
             (st\<lparr>cameraStream := Some stream, mode := ModeCamera, fileType := Some Video,
                 error := None, result := None\<rparr>, w)
         | None \<Rightarrow>
             (st\<lparr>error := Some ''Could not access camera. Check permissions or try a different browser.''\<rparr>,
              w\<lparr>console := console w @ [''Error accessing camera:'']\<rparr>)))"

text \<open>\<^verbatim>\<open>stopCamera\<close> (lines 90--98).\<close>

definition stopCamera :: "AppState \<Rightarrow> AppState \<times> Browser \<Rightarrow> AppState \<times> Browser" where
  "stopCamera snap c =
     (case c of (st, w) \<Rightarrow>
        let (st1, w1) =
              (case cameraStream snap of
                 Some s \<Rightarrow> (st\<lparr>cameraStream := None\<rparr>, w\<lparr>stopped := stopped w \<union> set (getTracks s)\<rparr>)
               | None \<Rightarrow> (st, w))
        in (st1,
            case videoRef w1 of
              Some v \<Rightarrow> w1\<lparr>videoRef := Some (v\<lparr>srcObject := None\<rparr>)\<rparr>
            | None \<Rightarrow> w1))"

text \<open>The effect that attaches the stream to the video element (lines 101--106).\<close>

definition attachEffect :: "AppState \<Rightarrow> Browser \<Rightarrow> Browser" where
  "attachEffect snap w =
     (case (cameraStream snap, videoRef w) of
        (Some s, Some v) \<Rightarrow>
          if mode snap = ModeCamera then w\<lparr>videoRef := Some (v\<lparr>srcObject := Some s\<rparr>)\<rparr> else w
      | _ \<Rightarrow> w)"

text \<open>\<^verbatim>\<open>handleFileUpload\<close> (lines 121--136); \<open>None\<close> when the change event carries no
  file.\<close>

definition handleFileUpload :: "File option \<Rightarrow> AppState \<Rightarrow> AppState" where
  "handleFileUpload file st =
     (case file of
        None \<Rightarrow> st
      | Some f \<Rightarrow>
          st\<lparr>mediaSource := Some (objectURL f), mode := ModeUpload, result := None,
             error := None,
             fileType := Some (if take 6 (mimeType f) = ''video/'' then Video else Image)\<rparr>)"

section \<open>Capture and analysis\<close>

text \<open>
  \<^verbatim>\<open>captureAndAnalyze\<close> (lines 139--190) is asynchronous. It is cut at its two awaits:
  \<open>captureAndAnalyze\<close> runs from the call to the first await or return,
  \<open>captureAndAnalyze_fetched\<close> resumes it after the image was read, and
  \<open>captureAndAnalyze_settled\<close> after \<^verbatim>\<open>analyzeRoadScene\<close> settled. Each takes the
  snapshot \<open>snap\<close> of the render whose \<^verbatim>\<open>captureAndAnalyze\<close> was called: \<^verbatim>\<open>analyzing\<close>,
  \<^verbatim>\<open>fileType\<close>, \<^verbatim>\<open>mediaSource\<close> and \<^verbatim>\<open>isAutoScan\<close> are read from it.
\<close>

datatype Suspended = Returned | AwaitFetch string | AwaitAnalysis string

datatype Outcome = Resolved AnalysisResult | Rejected string

text \<open>Lines 176--179, up to the await: \<^verbatim>\<open>if (imageDataUrl)\<close> holds for a string that
  is neither null nor empty. Calling \<^verbatim>\<open>analyzeRoadScene\<close> adds a pending call.\<close>

definition requestAnalysis ::
  "AppState \<Rightarrow> string option \<Rightarrow> AppState \<times> Browser \<Rightarrow> (AppState \<times> Browser) \<times> Suspended" where
  "requestAnalysis snap imageDataUrl c =
     (case c of (st, w) \<Rightarrow>
        (case imageDataUrl of
           None \<Rightarrow> ((st, w), Returned)
         | Some d \<Rightarrow>
             if d = [] then ((st, w), Returned)
             else ((st\<lparr>analyzing := True\<rparr>, w\<lparr>inflight := inflight w @ [(snap, d)]\<rparr>),
                   AwaitAnalysis d)))"

text \<open>Lines 146--157, the body of the video branch.\<close>

definition captureFromVideo ::
  "AppState \<Rightarrow> HTMLVideoElement \<Rightarrow> HTMLCanvasElement \<Rightarrow> AppState \<times> Browser \<Rightarrow>
     (AppState \<times> Browser) \<times> Suspended" where
  "captureFromVideo snap video canvas c =
     (case c of (st, w) \<Rightarrow>
        if videoWidth video = 0 \<or> videoHeight video = 0 then ((st, w), Returned)
        else
          requestAnalysis snap
            (if has2d canvas then Some (currentFrame video) else None)
            (st, w\<lparr>canvasRef := Some (canvas\<lparr>canvasWidth := videoWidth video,
                                               canvasHeight := videoHeight video\<rparr>)\<rparr>))"

text \<open>A string that is neither null nor empty, as \<^verbatim>\<open>&& mediaSource\<close> tests it; then the
  whole function up to its first await.\<close>

definition truthy :: "string option \<Rightarrow> bool" where
  "truthy s = (case s of None \<Rightarrow> False | Some t \<Rightarrow> t \<noteq> [])"

definition captureAndAnalyze ::
  "AppState \<Rightarrow> AppState \<times> Browser \<Rightarrow> (AppState \<times> Browser) \<times> Suspended" where
  "captureAndAnalyze snap c =
     (case c of (st, w) \<Rightarrow>
        if analyzing snap then ((st, w), Returned)
        else if fileType snap = Some Video \<and> videoRef w \<noteq> None \<and> canvasRef w \<noteq> None then
          captureFromVideo snap (the (videoRef w)) (the (canvasRef w)) (st, w)
        else if fileType snap = Some Image \<and> truthy (mediaSource snap) then
          ((st, w), AwaitFetch (the (mediaSource snap)))
        else requestAnalysis snap None (st, w))"

text \<open>After the fetch and the \<^verbatim>\<open>FileReader\<close> (lines 161--173): \<open>None\<close> is the failure,
  which is logged and ends the call.\<close>

definition captureAndAnalyze_fetched ::
  "AppState \<Rightarrow> string option \<Rightarrow> AppState \<times> Browser \<Rightarrow> (AppState \<times> Browser) \<times> Suspended" where
  "captureAndAnalyze_fetched snap fetched c =
     (case c of (st, w) \<Rightarrow>
        (case fetched of
           None \<Rightarrow> ((st, w\<lparr>console := console w @ [''Error converting image to base64:'']\<rparr>), Returned)
         | Some d \<Rightarrow> requestAnalysis snap (Some d) (st, w)))"

text \<open>After \<^verbatim>\<open>analyzeRoadScene\<close> settled (lines 179--188): try, catch, finally.\<close>

definition captureAndAnalyze_settled ::
  "AppState \<Rightarrow> Outcome \<Rightarrow> AppState \<times> Browser \<Rightarrow> AppState \<times> Browser" where
  "captureAndAnalyze_settled snap outcome c =
     (case c of (st, w) \<Rightarrow>
        (case outcome of
           Resolved analysis \<Rightarrow>
             (st\<lparr>result := Some analysis, error := None, analyzing := False\<rparr>, w)
         | Rejected err \<Rightarrow>
             (let st1 = (if \<not> isAutoScan snap
                         then st\<lparr>error := Some ''Analysis failed. Try again.''\<rparr> else st)
              in (st1\<lparr>analyzing := False\<rparr>, w\<lparr>console := console w @ [err]\<rparr>))))"

section \<open>Periodic scan and reset\<close>

definition setInterval :: "AppState \<Rightarrow> nat \<Rightarrow> Browser \<Rightarrow> nat \<times> Browser" where
  "setInterval snap ms w =
     (let h = Suc (timerCount w) in
      (h, w\<lparr>intervals := intervals w @ [\<lparr>handle = h, due = now w + ms, period = ms, callback = snap\<rparr>],
            timerCount := h\<rparr>))"

definition clearInterval :: "nat \<Rightarrow> Browser \<Rightarrow> Browser" where
  "clearInterval h w = w\<lparr>intervals := filter (\<lambda>t. handle t \<noteq> h) (intervals w)\<rparr>"

text \<open>The body of the auto-scan effect (lines 194--204). The callback is
  \<^verbatim>\<open>captureAndAnalyze\<close> of the render in which the effect runs, so the timer keeps
  that render's snapshot.\<close>

definition autoScanEffect :: "AppState \<Rightarrow> Browser \<Rightarrow> Browser" where
  "autoScanEffect snap w =
     (if isAutoScan snap then
        (case setInterval snap 4000 w of (h, w') \<Rightarrow> w'\<lparr>autoScanInterval := Some h\<rparr>)
      else
        (case autoScanInterval w of
           None \<Rightarrow> w
         | Some h \<Rightarrow> if h = 0 then w else (clearInterval h w)\<lparr>autoScanInterval := None\<rparr>))"

text \<open>Its cleanup (lines 205--207), run before the effect runs again.\<close>

definition autoScanCleanup :: "Browser \<Rightarrow> Browser" where
  "autoScanCleanup w =
     (case autoScanInterval w of
        None \<Rightarrow> w
      | Some h \<Rightarrow> if h = 0 then w else clearInterval h w)"

text \<open>The AUTO button (line 328) and \<^verbatim>\<open>reset\<close> (lines 210--218).\<close>

definition toggleAutoScan :: "AppState \<Rightarrow> AppState \<Rightarrow> AppState" where
  "toggleAutoScan snap st = st\<lparr>isAutoScan := \<not> isAutoScan snap\<rparr>"

definition reset :: "AppState \<Rightarrow> AppState \<times> Browser \<Rightarrow> AppState \<times> Browser" where
  "reset snap c =
     (case stopCamera snap c of (st, w) \<Rightarrow>
        (st\<lparr>isAutoScan := False, mode := ModeInitial, mediaSource := None, result := None,
            fileType := None, error := None\<rparr>, w))"

section \<open>Rendering, effects and events\<close>

text \<open>Which controls the top bar renders (lines 296--348 and 361): the two source
  buttons only in the initial mode; SCAN, AUTO and reset only outside it; SCAN is
  hidden during auto-scan and disabled while analyzing; AUTO needs a video.\<close>

datatype Control =
  LiveCameraButton | UploadButton | ScanButton | AutoButton | ResetButton | VoiceButton

definition offered :: "AppState \<Rightarrow> Control \<Rightarrow> bool" where
  "offered st b =
     (case b of
        LiveCameraButton \<Rightarrow> mode st = ModeInitial
      | UploadButton \<Rightarrow> mode st = ModeInitial
      | ScanButton \<Rightarrow> mode st \<noteq> ModeInitial \<and> \<not> isAutoScan st \<and> \<not> analyzing st
      | AutoButton \<Rightarrow> mode st \<noteq> ModeInitial \<and> fileType st = Some Video
      | ResetButton \<Rightarrow> mode st \<noteq> ModeInitial
      | VoiceButton \<Rightarrow> True)"

text \<open>The media element that \<^verbatim>\<open>renderVisualizer\<close> mounts (lines 221--259): a video
  element exactly when the mode is not initial and the file type is video. A freshly
  mounted element has no dimensions yet.\<close>

definition renderVisualizer :: "AppState \<Rightarrow> Browser \<Rightarrow> Browser" where
  "renderVisualizer cur w =
     (if mode cur = ModeInitial then w\<lparr>videoRef := None\<rparr>
      else if fileType cur = Some Video then
        (case videoRef w of
           None \<Rightarrow> w\<lparr>videoRef := Some \<lparr>videoWidth = 0, videoHeight = 0, srcObject = None,
                                      currentFrame = []\<rparr>\<rparr>
         | Some v \<Rightarrow> w)
      else w\<lparr>videoRef := None\<rparr>)"

text \<open>
  A render after the state went from \<open>prev\<close> to \<open>cur\<close>: the element is mounted, then
  each effect runs if one of its dependencies changed, in the order of the source. The
  dependencies are those the source lists: (result, isVoiceEnabled, speak, isAutoScan)
  for the narration, (mode, cameraStream) for the attachment, and (isAutoScan, fileType,
  mediaSource, mode, cameraStream) for the auto-scan; \<^verbatim>\<open>analyzing\<close> is in none of them.
  \<open>newResult\<close> says that \<^verbatim>\<open>setResult\<close> stored a new object, which differs from the
  previous one whatever its content.
\<close>

definition commit :: "bool \<Rightarrow> AppState \<Rightarrow> AppState \<Rightarrow> Browser \<Rightarrow> Browser" where
  "commit newResult prev cur w =
     (let w1 = renderVisualizer cur w;
          w2 = (if newResult then narrationEffect cur w1
                else if (result prev, isVoiceEnabled prev, isAutoScan prev) =
                        (result cur, isVoiceEnabled cur, isAutoScan cur) then w1
                else narrationEffect cur w1);
          w3 = (if (mode prev, cameraStream prev) = (mode cur, cameraStream cur) then w2
                else attachEffect cur w2)
      in if (isAutoScan prev, fileType prev, mediaSource prev, mode prev, cameraStream prev) =
            (isAutoScan cur, fileType cur, mediaSource cur, mode cur, cameraStream cur) then w3
         else autoScanEffect cur (autoScanCleanup w3))"

text \<open>What can happen to the page: a click, the settling of a pending promise, a timer
  that fires, the video element reporting a frame of some size.\<close>

datatype Event =
  Click Control
| UserMedia "MediaStream option"
| FileChosen "File option"
| Fetched nat "string option"
| Settled nat Outcome
| Tick nat
| VideoFrame nat nat string

definition removeAt :: "nat \<Rightarrow> 'a list \<Rightarrow> 'a list" where
  "removeAt i xs = take i xs @ drop (Suc i) xs"

text \<open>An invocation that stopped at the image fetch joins the pending fetches.\<close>

definition suspend :: "AppState \<Rightarrow> (AppState \<times> Browser) \<times> Suspended \<Rightarrow> AppState \<times> Browser" where
  "suspend snap r =
     (case r of
        ((st, w), AwaitFetch url) \<Rightarrow> (st, w\<lparr>fetching := fetching w @ [(snap, url)]\<rparr>)
      | ((st, w), _) \<Rightarrow> (st, w))"

definition click :: "Control \<Rightarrow> AppState \<times> Browser \<Rightarrow> AppState \<times> Browser" where
  "click b c =
     (case c of (st, w) \<Rightarrow>
        (case b of
           LiveCameraButton \<Rightarrow> (st, w\<lparr>requesting := Suc (requesting w)\<rparr>)
         | UploadButton \<Rightarrow> (st, w\<lparr>dialogOpen := True\<rparr>)
         | ScanButton \<Rightarrow> suspend st (captureAndAnalyze st (st, w))
         | AutoButton \<Rightarrow> (toggleAutoScan st st, w)
         | ResetButton \<Rightarrow> reset st (st, w)
         | VoiceButton \<Rightarrow> toggleVoice st (st, w)))"

text \<open>
  The handler of an event, \<open>None\<close> when the event cannot happen in this state. A click
  runs the handler of the current render, so its snapshot is the live state. A timer
  runs its callback with the snapshot it was created with, and is due again one period
  later.
\<close>

fun handler :: "Event \<Rightarrow> AppState \<times> Browser \<Rightarrow> (AppState \<times> Browser) option" where
  "handler (Click b) (st, w) = (if offered st b then Some (click b (st, w)) else None)"
| "handler (UserMedia granted) (st, w) =
     (if requesting w = 0 then None
      else Some (startCamera granted (st, w\<lparr>requesting := requesting w - 1\<rparr>)))"
| "handler (FileChosen file) (st, w) =
     (if dialogOpen w then Some (handleFileUpload file st, w\<lparr>dialogOpen := False\<rparr>) else None)"
| "handler (Fetched i fetched) (st, w) =
     (if i < length (fetching w) then
        Some (fst (captureAndAnalyze_fetched (fst (fetching w ! i)) fetched
                     (st, w\<lparr>fetching := removeAt i (fetching w)\<rparr>)))
      else None)"
| "handler (Settled i outcome) (st, w) =
     (if i < length (inflight w) then
        Some (captureAndAnalyze_settled (fst (inflight w ! i)) outcome
                (st, w\<lparr>inflight := removeAt i (inflight w)\<rparr>))
      else None)"
| "handler (Tick h) (st, w) =
     (case find (\<lambda>t. handle t = h) (intervals w) of
        None \<Rightarrow> None
      | Some t \<Rightarrow>
          if due t = now w then
            Some (suspend (callback t)
                    (captureAndAnalyze (callback t)
                       (st, w\<lparr>intervals :=
                                map (\<lambda>u. if handle u = h then u\<lparr>due := due u + period u\<rparr> else u)
                                    (intervals w)\<rparr>)))
          else None)"
| "handler (VideoFrame wd ht frame) (st, w) =
     (case videoRef w of
        None \<Rightarrow> None
      | Some v \<Rightarrow>
          Some (st, w\<lparr>videoRef := Some (v\<lparr>videoWidth := wd, videoHeight := ht,
                                             currentFrame := frame\<rparr>)\<rparr>))"

fun storesResult :: "Event \<Rightarrow> bool" where
  "storesResult (Settled i (Resolved a)) = True"
| "storesResult e = False"

text \<open>
  One event at time \<open>t\<close> (milliseconds): time does not run backwards, no timer is
  passed over (every live timer is due at \<open>t\<close> or later), the handler runs, and the
  component renders.
\<close>

definition step :: "nat \<times> Event \<Rightarrow> AppState \<times> Browser \<Rightarrow> (AppState \<times> Browser) option" where
  "step te c =
     (case te of (t, e) \<Rightarrow>
        (case c of (st, w) \<Rightarrow>
           if t < now w then None
           else if list_all (\<lambda>u. t \<le> due u) (intervals w) then
             (case handler e (st, w\<lparr>now := t\<rparr>) of
                None \<Rightarrow> None
              | Some (st', w') \<Rightarrow> Some (st', commit (storesResult e) st st' w'))
           else None))"

fun run :: "(nat \<times> Event) list \<Rightarrow> AppState \<times> Browser \<Rightarrow> (AppState \<times> Browser) option" where
  "run [] c = Some c"
| "run (te # tes) c = (case step te c of None \<Rightarrow> None | Some c' \<Rightarrow> run tes c')"

text \<open>The page right after it was loaded (lines 24--43): the hidden canvas is mounted,
  nothing else is.\<close>

definition initialApp :: AppState where
  "initialApp =
     \<lparr>mode = ModeInitial, fileType = None, mediaSource = None, cameraStream = None,
      result = None, analyzing = False, error = None, isVoiceEnabled = False,
      isAutoScan = False\<rparr>"

definition initialBrowser :: "string list option \<Rightarrow> Browser" where
  "initialBrowser synth =
     \<lparr>stopped = {}, videoRef = None,
      canvasRef = Some \<lparr>canvasWidth = 300, canvasHeight = 150, has2d = True\<rparr>,
      speechSynthesis = synth, console = [], inflight = [], fetching = [], intervals = [],
      autoScanInterval = None, timerCount = 0, requesting = 0, dialogOpen = False, now = 0\<rparr>"

section \<open>Sample sessions\<close>

text \<open>Concrete values on which the theorems below are run: two results, an uploaded
  video file, a camera session, a video element before and after its first frame, and
  the events that bring the freshly loaded page to a live camera of 640 by 480.\<close>

definition safeResult :: AnalysisResult where
  "safeResult =
     \<lparr>safetyLevel = SAFE, recommendation = ''Road clear.'', timestamp = ''12:00:00'',
      hazards = [], signs = []\<rparr>"

definition dangerResult :: AnalysisResult where
  "dangerResult =
     \<lparr>safetyLevel = DANGER, recommendation = ''Brake now.'', timestamp = ''12:00:04'',
      hazards = [\<lparr>hazard_type = ''Pedestrian'', severity = HIGH,
                  description = ''Pedestrian crossing ahead''\<rparr>],
      signs = []\<rparr>"

definition videoFile :: File where
  "videoFile = \<lparr>objectURL = ''blob:clip'', mimeType = ''video/mp4''\<rparr>"

definition cameraApp :: AppState where
  "cameraApp =
     \<lparr>mode = ModeCamera, fileType = Some Video, mediaSource = None,
      cameraStream = Some (MediaStream [1, 2]), result = None, analyzing = False,
      error = None, isVoiceEnabled = False, isAutoScan = False\<rparr>"

definition unreadyVideo :: HTMLVideoElement where
  "unreadyVideo =
     \<lparr>videoWidth = 0, videoHeight = 0, srcObject = Some (MediaStream [1, 2]),
      currentFrame = []\<rparr>"

definition liveCamera :: "(nat \<times> Event) list" where
  "liveCamera =
     [(0, Click LiveCameraButton),
      (1000, UserMedia (Some (MediaStream [1, 2]))),
      (2000, VideoFrame 640 480 ''data:image/jpeg;base64,AAAA'')]"

section \<open>Helper lemmas\<close>

lemmas model_defs =
  step_def click_def offered_def commit_def renderVisualizer_def narrationEffect_def speak_def
  attachEffect_def autoScanEffect_def autoScanCleanup_def setInterval_def clearInterval_def
  captureAndAnalyze_def captureFromVideo_def requestAnalysis_def truthy_def suspend_def
  captureAndAnalyze_settled_def captureAndAnalyze_fetched_def startCamera_def stopCamera_def
  handleFileUpload_def toggleAutoScan_def toggleVoice_def reset_def removeAt_def
  initialApp_def initialBrowser_def Let_def

lemmas sample_defs =
  safeResult_def dangerResult_def videoFile_def cameraApp_def unreadyVideo_def liveCamera_def

text \<open>Only \<open>speak\<close> and the voice button touch the utterance queue.\<close>

lemma synth_renderVisualizer: "speechSynthesis (renderVisualizer cur w) = speechSynthesis w"
  by (simp add: renderVisualizer_def split: option.splits)

lemma synth_attachEffect: "speechSynthesis (attachEffect cur w) = speechSynthesis w"
  by (simp add: attachEffect_def split: option.splits)

lemma synth_autoScanCleanup: "speechSynthesis (autoScanCleanup w) = speechSynthesis w"
  by (simp add: autoScanCleanup_def clearInterval_def split: option.splits)

lemma synth_autoScanEffect: "speechSynthesis (autoScanEffect cur w) = speechSynthesis w"
  by (simp add: autoScanEffect_def clearInterval_def setInterval_def Let_def split: option.splits)

lemma narrationEffect_voice_off: "\<not> isVoiceEnabled cur \<Longrightarrow> narrationEffect cur w = w"
  by (simp add: narrationEffect_def split: option.splits)

lemma synth_narrationEffect:
  assumes "isVoiceEnabled cur" and "result cur = Some r" and "speechSynthesis w = Some q"
  shows "speechSynthesis (narrationEffect cur w) =
     Some (case safetyLevel r of
             DANGER \<Rightarrow> [''Warning. '' @ recommendation r]
           | CAUTION \<Rightarrow> q @ [''Caution. '' @ recommendation r]
           | SAFE \<Rightarrow> if isAutoScan cur then q else q @ [recommendation r])"
  using assms by (simp add: narrationEffect_def speak_def split: SafetyLevel.splits)

lemma synth_narrationEffect_none:
  "speechSynthesis w = None \<Longrightarrow> speechSynthesis (narrationEffect cur w) = None"
  by (simp add: narrationEffect_def speak_def split: SafetyLevel.splits option.splits)

text \<open>A render that follows \<^verbatim>\<open>setResult(analysis)\<close> runs the narration effect, and
  nothing else in it speaks.\<close>

lemma synth_commit_new_result:
  "speechSynthesis (commit True prev cur w) =
     speechSynthesis (narrationEffect cur (renderVisualizer cur w))"
  by (simp add: commit_def Let_def synth_attachEffect synth_autoScanEffect synth_autoScanCleanup)

lemma synth_commit_voice_off:
  "\<not> isVoiceEnabled cur \<Longrightarrow> speechSynthesis (commit b prev cur w) = speechSynthesis w"
  by (simp add: commit_def Let_def synth_attachEffect synth_autoScanEffect synth_autoScanCleanup
      narrationEffect_voice_off synth_renderVisualizer)

text \<open>The guard of line 140 reads the snapshot: an invocation whose own render saw
  \<^verbatim>\<open>analyzing\<close> set does nothing, and the SCAN button of such a render is disabled.\<close>

lemma guard_on_snapshot: "analyzing snap \<Longrightarrow> captureAndAnalyze snap c = (c, Returned)"
  by (simp add: captureAndAnalyze_def split: prod.splits)

lemma scan_button_needs_idle: "offered st ScanButton \<Longrightarrow> \<not> analyzing st \<and> \<not> isAutoScan st"
  by (simp add: offered_def)

text \<open>Every timer was created by the auto-scan effect of a render with auto-scan on, so
  an invocation made by a timer always carries \<open>isAutoScan = True\<close>, while one made by
  the SCAN button carries \<open>isAutoScan = False\<close>.\<close>

lemma intervals_captureAndAnalyze:
  "intervals (snd (fst (captureAndAnalyze snap (st, w)))) = intervals w"
  by (simp add: captureAndAnalyze_def captureFromVideo_def requestAnalysis_def
      split: option.splits)

lemma intervals_suspend:
  "intervals (snd (suspend snap (captureAndAnalyze snap' (st, w)))) = intervals w"
proof -
  obtain st' w' s where r: "captureAndAnalyze snap' (st, w) = ((st', w'), s)"
    by (metis prod.exhaust)
  with intervals_captureAndAnalyze [of snap' st w] have "intervals w' = intervals w"
    by simp
  with r show ?thesis
    by (cases s) (simp_all add: suspend_def)
qed

lemma intervals_click: "intervals (snd (click b (st, w))) = intervals w"
  by (cases b)
     (simp_all add: click_def intervals_suspend reset_def stopCamera_def toggleVoice_def Let_def
        split: option.splits prod.splits)

lemma timers_handler:
  assumes "handler e (st, w) = Some (st', w')"
    and "list_all (\<lambda>t. isAutoScan (callback t)) (intervals w)"
  shows "list_all (\<lambda>t. isAutoScan (callback t)) (intervals w')"
proof (cases e)
  case (Click b)
  with assms(1) have "w' = snd (click b (st, w))"
    by (auto split: if_splits)
  with assms(2) show ?thesis
    by (simp add: intervals_click)
next
  case (Tick h)
  let ?w2 = "w\<lparr>intervals := map (\<lambda>u. if handle u = h then u\<lparr>due := due u + period u\<rparr> else u)
                                 (intervals w)\<rparr>"
  from Tick assms(1) obtain t where ft: "find (\<lambda>t. handle t = h) (intervals w) = Some t"
    by (cases "find (\<lambda>t. handle t = h) (intervals w)") simp_all
  with Tick assms(1) have
    "suspend (callback t) (captureAndAnalyze (callback t) (st, ?w2)) = (st', w')"
    by (simp split: if_splits)
  then have "intervals w' = intervals ?w2"
    using intervals_suspend [of "callback t" "callback t" st ?w2] by simp
  with assms(2) show ?thesis
    by (auto simp: list_all_iff)
qed (use assms in \<open>auto simp: startCamera_def captureAndAnalyze_fetched_def requestAnalysis_def
      captureAndAnalyze_settled_def Let_def split: if_splits option.splits Outcome.splits\<close>)

lemma intervals_pre_effects:
  "intervals (attachEffect cur (narrationEffect cur' (renderVisualizer cur'' w))) = intervals w"
  "intervals (attachEffect cur (renderVisualizer cur'' w)) = intervals w"
  "intervals (narrationEffect cur' (renderVisualizer cur'' w)) = intervals w"
  "intervals (renderVisualizer cur'' w) = intervals w"
  by (simp_all add: attachEffect_def narrationEffect_def speak_def renderVisualizer_def
      split: option.splits SafetyLevel.splits)

lemma timers_autoScan:
  assumes "list_all (\<lambda>t. isAutoScan (callback t)) (intervals w)"
  shows "list_all (\<lambda>t. isAutoScan (callback t)) (intervals (autoScanEffect cur (autoScanCleanup w)))"
  using assms
  by (simp add: autoScanEffect_def autoScanCleanup_def setInterval_def clearInterval_def Let_def
      list_all_iff split: option.splits)

lemma timers_commit:
  assumes "list_all (\<lambda>t. isAutoScan (callback t)) (intervals w)"
  shows "list_all (\<lambda>t. isAutoScan (callback t)) (intervals (commit b prev cur w))"
  using assms
  by (simp add: commit_def Let_def intervals_pre_effects timers_autoScan)

lemma timers_step:
  assumes "step te (st, w) = Some (st', w')"
    and "list_all (\<lambda>t. isAutoScan (callback t)) (intervals w)"
  shows "list_all (\<lambda>t. isAutoScan (callback t)) (intervals w')"
proof -
  obtain t e where te: "te = (t, e)" by (cases te)
  with assms(1) obtain w1 where h: "handler e (st, w\<lparr>now := t\<rparr>) = Some (st', w1)"
    and w': "w' = commit (storesResult e) st st' w1"
    by (auto simp: step_def split: if_splits option.splits)
  from timers_handler [OF h] assms(2) have "list_all (\<lambda>t. isAutoScan (callback t)) (intervals w1)"
    by simp
  with w' show ?thesis
    by (simp add: timers_commit)
qed

lemma timers_run:
  assumes "run tes c = Some c'"
    and "list_all (\<lambda>t. isAutoScan (callback t)) (intervals (snd c))"
  shows "list_all (\<lambda>t. isAutoScan (callback t)) (intervals (snd c'))"
  using assms
proof (induction tes arbitrary: c)
  case Nil
  then show ?case by simp
next
  case (Cons te tes)
  then obtain c1 where s: "step te c = Some c1" and r: "run tes c1 = Some c'"
    by (auto split: option.splits)
  from s Cons.prems(2) have "list_all (\<lambda>t. isAutoScan (callback t)) (intervals (snd c1))"
    using timers_step [of te "fst c" "snd c" "fst c1" "snd c1"] by simp
  with Cons.IH r show ?case by blast
qed

lemma timers_of_page:
  "run tes (initialApp, initialBrowser synth) = Some (st, w) \<Longrightarrow>
     list_all (\<lambda>t. isAutoScan (callback t)) (intervals w)"
  using timers_run [of tes "(initialApp, initialBrowser synth)" "(st, w)"]
  by (simp add: initialBrowser_def)

section \<open>Narration priority\<close>

text \<open>
  Claim C3 says that every new result with voice enabled is narrated by its level. On a
  platform without \<^verbatim>\<open>window.speechSynthesis\<close> the guard of \<^verbatim>\<open>speak\<close> (line 47) returns
  first: a DANGER result that arrives with voice enabled is not spoken.
\<close>

theorem danger_without_speech_synthesis:
  "speechSynthesis
     (commit True cameraApp (cameraApp\<lparr>result := Some dangerResult, isVoiceEnabled := True\<rparr>)
        (initialBrowser None)) = None"
  by (simp add: synth_commit_new_result synth_narrationEffect_none synth_renderVisualizer
      initialBrowser_def)

text \<open>
  Claim C3, amended: in the render that follows the arrival of a result \<open>r\<close>, with voice
  enabled and speech synthesis available with queue \<open>q\<close>, a DANGER result leaves the
  queue holding only \<open>Warning. <recommendation>\<close> (whatever was playing or waiting is
  cancelled and the warning plays at once); a CAUTION result appends
  \<open>Caution. <recommendation>\<close> to the queue, cancelling nothing; a SAFE result appends
  its recommendation when auto-scan is off and leaves the queue alone when it is on.
  Without speech synthesis nothing is spoken.
\<close>

theorem narration_priority:
  assumes "isVoiceEnabled cur" and "result cur = Some r"
    and "speechSynthesis w = Some q" and "speechSynthesis w0 = None"
  shows "speechSynthesis (commit True prev cur w) =
           Some (case safetyLevel r of
                   DANGER \<Rightarrow> [''Warning. '' @ recommendation r]
                 | CAUTION \<Rightarrow> q @ [''Caution. '' @ recommendation r]
                 | SAFE \<Rightarrow> if isAutoScan cur then q else q @ [recommendation r])
         \<and> speechSynthesis (commit True prev cur w0) = None"
  using assms
  by (simp add: synth_commit_new_result synth_narrationEffect synth_narrationEffect_none
      synth_renderVisualizer)

text \<open>A DANGER result arriving while \<open>Road clear.\<close> is being spoken, and the same result
  on a platform without speech synthesis.\<close>

theorem narration_priority_witness:
  "speechSynthesis
     (commit True cameraApp (cameraApp\<lparr>result := Some dangerResult, isVoiceEnabled := True\<rparr>)
        (initialBrowser (Some [''Road clear.'']))) = Some [''Warning. Brake now.'']
   \<and> speechSynthesis
     (commit True cameraApp (cameraApp\<lparr>result := Some dangerResult, isVoiceEnabled := True\<rparr>)
        (initialBrowser None)) = None"
  using narration_priority [of "cameraApp\<lparr>result := Some dangerResult, isVoiceEnabled := True\<rparr>"
      dangerResult "initialBrowser (Some [''Road clear.''])" "[''Road clear.'']"
      "initialBrowser None" cameraApp]
  by (simp add: cameraApp_def dangerResult_def initialBrowser_def)

section \<open>Captures that do nothing\<close>

text \<open>
  Claim C4: a capture attempt on a video source whose element reports a width or a height
  of zero returns at line 149: the browser is left as it was (no frame is drawn or
  encoded and no inference call is added) and so is the state (result, error and the
  analyzing flag among it).
\<close>

theorem capture_zero_dimension_noop:
  assumes "fileType snap = Some Video" and "videoRef w = Some v"
    and "videoWidth v = 0 \<or> videoHeight v = 0"
  shows "captureAndAnalyze snap (st, w) = ((st, w), Returned)"
  using assms
  by (auto simp: captureAndAnalyze_def captureFromVideo_def requestAnalysis_def)

text \<open>The camera session whose video element has not produced a frame yet.\<close>

theorem capture_zero_dimension_noop_witness:
  "captureAndAnalyze cameraApp (cameraApp, (initialBrowser None)\<lparr>videoRef := Some unreadyVideo\<rparr>)
     = ((cameraApp, (initialBrowser None)\<lparr>videoRef := Some unreadyVideo\<rparr>), Returned)"
  by (rule capture_zero_dimension_noop [where v = unreadyVideo])
     (simp_all add: cameraApp_def unreadyVideo_def)

text \<open>
  Claim C10: with no capturable source (no file type; an image file type with no media
  source; a video file type with no video element) \<^verbatim>\<open>captureAndAnalyze\<close> returns with
  the state and the browser as they were: no inference call, and result, error and the
  analyzing flag unchanged.
\<close>

theorem capture_without_source_noop:
  assumes "fileType snap = None
           \<or> (fileType snap = Some Image \<and> mediaSource snap = None)
           \<or> (fileType snap = Some Video \<and> videoRef w = None)"
  shows "captureAndAnalyze snap (st, w) = ((st, w), Returned)"
  using assms
  by (auto simp: captureAndAnalyze_def requestAnalysis_def truthy_def)

text \<open>One input for each of the three cases.\<close>

theorem capture_without_source_noop_witness:
  "captureAndAnalyze initialApp (cameraApp, initialBrowser None)
     = ((cameraApp, initialBrowser None), Returned)
   \<and> captureAndAnalyze (initialApp\<lparr>mode := ModeUpload, fileType := Some Image\<rparr>)
        (cameraApp, initialBrowser None) = ((cameraApp, initialBrowser None), Returned)
   \<and> captureAndAnalyze cameraApp (cameraApp, initialBrowser None)
     = ((cameraApp, initialBrowser None), Returned)"
  using capture_without_source_noop [of initialApp "initialBrowser None" cameraApp]
    capture_without_source_noop [of "initialApp\<lparr>mode := ModeUpload, fileType := Some Image\<rparr>"
      "initialBrowser None" cameraApp]
    capture_without_source_noop [of cameraApp "initialBrowser None" cameraApp]
  by (simp add: initialApp_def cameraApp_def initialBrowser_def)

section \<open>Voice switched off\<close>

text \<open>
  Claim C9: switching voice off cancels the speech in progress at once (the queue of
  the synthesiser, if there is one, is emptied and the flag is cleared), and while voice
  is disabled no result, DANGER included, is narrated: the narration effect, \<open>speak\<close>
  and a whole render leave the queue as it was.
\<close>

theorem voice_off_silences:
  assumes "isVoiceEnabled snap" and "\<not> isVoiceEnabled cur"
  shows "isVoiceEnabled (fst (toggleVoice snap (st, w))) = False
       \<and> speechSynthesis (snd (toggleVoice snap (st, w))) =
           map_option (\<lambda>q. []) (speechSynthesis w)
       \<and> narrationEffect cur w = w
       \<and> speak cur txt priority w = w
       \<and> speechSynthesis (commit newResult prev cur w) = speechSynthesis w"
  using assms
  by (simp add: toggleVoice_def narrationEffect_voice_off synth_commit_voice_off speak_def
      split: option.splits)

text \<open>Voice switched off while \<open>Road clear.\<close> is spoken; a DANGER result with voice off.\<close>

theorem voice_off_silences_witness:
  "isVoiceEnabled (fst (toggleVoice (cameraApp\<lparr>isVoiceEnabled := True\<rparr>)
       (cameraApp\<lparr>isVoiceEnabled := True\<rparr>, initialBrowser (Some [''Road clear.''])))) = False
   \<and> speechSynthesis (snd (toggleVoice (cameraApp\<lparr>isVoiceEnabled := True\<rparr>)
       (cameraApp\<lparr>isVoiceEnabled := True\<rparr>, initialBrowser (Some [''Road clear.''])))) = Some []
   \<and> narrationEffect (cameraApp\<lparr>result := Some dangerResult\<rparr>)
        (initialBrowser (Some [''Road clear.''])) = initialBrowser (Some [''Road clear.''])"
  using voice_off_silences [of "cameraApp\<lparr>isVoiceEnabled := True\<rparr>"
      "cameraApp\<lparr>result := Some dangerResult\<rparr>" "cameraApp\<lparr>isVoiceEnabled := True\<rparr>"
      "initialBrowser (Some [''Road clear.''])"]
  by (simp add: cameraApp_def initialBrowser_def)

section \<open>Failures\<close>






section \<open>Results that arrive late\<close>

text \<open>
  Claim C7: a reset or a change of source does not cancel a pending inference call (the
  pending calls are the same afterwards), and when the call then succeeds its result is
  stored all the same, whatever the state has become: after a reset the session is in
  the initial mode and still receives the result.
\<close>

theorem stale_result_still_applied:
  "inflight (snd (reset snap (st, w))) = inflight w
   \<and> inflight (snd (startCamera granted (st, w))) = inflight w
   \<and> result (fst (captureAndAnalyze_settled call (Resolved analysis) (reset snap (st, w))))
       = Some analysis
   \<and> mode (fst (captureAndAnalyze_settled call (Resolved analysis) (reset snap (st, w))))
       = ModeInitial
   \<and> result (fst (captureAndAnalyze_settled call (Resolved analysis) (handleFileUpload file st, w)))
       = Some analysis
   \<and> result (fst (captureAndAnalyze_settled call (Resolved analysis) (startCamera granted (st, w))))
       = Some analysis"
  by (simp add: reset_def stopCamera_def startCamera_def captureAndAnalyze_settled_def
      handleFileUpload_def Let_def split: option.splits prod.splits)

section \<open>Releasing the camera\<close>




section \<open>The in-flight guard and the timer\<close>

text \<open>
  Claim C2 says that \<^verbatim>\<open>captureAndAnalyze\<close> does nothing while an inference call is
  pending, also when a timer calls it. The timer callback is the \<^verbatim>\<open>captureAndAnalyze\<close>
  of the render that installed the timer, and \<^verbatim>\<open>analyzing\<close> is not a dependency of the
  auto-scan effect, so the callback keeps reading the \<^verbatim>\<open>analyzing\<close> of that render.
  On a live camera with auto-scan switched on at 10 s, the tick at 14 s starts a call
  (the flag is set, one call pending); the tick at 18 s, with that call still pending,
  starts a second one.
\<close>

theorem stale_tick_issues_second_call:
  "map_option (\<lambda>c. (analyzing (fst c), length (inflight (snd c))))
     (run (liveCamera @ [(10000, Click AutoButton), (14000, Tick 1)])
        (initialApp, initialBrowser None)) = Some (True, 1)
   \<and> map_option (\<lambda>c. (analyzing (fst c), length (inflight (snd c))))
     (run (liveCamera @ [(10000, Click AutoButton), (14000, Tick 1), (18000, Tick 1)])
        (initialApp, initialBrowser None)) = Some (True, 2)"
  by (simp add: model_defs sample_defs)

text \<open>
  Claim C8 says that with a 6-second inference the tick 4 s after the start is skipped
  and the one at 8 s scans. With SCAN and then AUTO clicked at 10 s, the timer is due
  every 4000 ms whatever the call takes, and the tick at 14 s is skipped (one call
  pending, as before). The call settles at 16 s. The tick at 18 s is skipped too: no
  call is pending and none is started, because the callback still reads the
  \<^verbatim>\<open>analyzing = true\<close> of the render that installed the timer.
\<close>

theorem tick_after_manual_scan_never_scans:
  "map_option (\<lambda>c. (analyzing (fst c), length (inflight (snd c)), map due (intervals (snd c))))
     (run (liveCamera @ [(10000, Click ScanButton), (10000, Click AutoButton), (14000, Tick 1)])
        (initialApp, initialBrowser None)) = Some (True, 1, [18000])
   \<and> map_option (\<lambda>c. (analyzing (fst c), length (inflight (snd c)), map due (intervals (snd c))))
     (run (liveCamera @ [(10000, Click ScanButton), (10000, Click AutoButton), (14000, Tick 1),
                        (16000, Settled 0 (Resolved safeResult)), (18000, Tick 1)])
        (initialApp, initialBrowser None)) = Some (False, 0, [22000])"
  by (simp add: model_defs sample_defs)

end
